theory Spec2Isabelle
  imports Main "HOL-Library.Word"
begin

section \<open>The engine behind the adapter\<close>

text \<open>
  \<^verbatim>\<open>inc/freetype/freetype.hpp\<close> wraps the C interface of the FreeType engine
  (\<^verbatim>\<open>freetype/freetype.h\<close>, which is included but is not part of the repository).
  The engine is therefore a parameter of every definition below: a record of the
  procedures and constants the header uses, over a state \<open>'w\<close> that the engine reads
  and updates. Nothing is assumed of these procedures except where a theorem says so.

  Integer types are those of an LP64 platform: \<^verbatim>\<open>int\<close> and \<^verbatim>\<open>unsigned int\<close> have
  32 bits, \<^verbatim>\<open>long\<close> and \<^verbatim>\<open>unsigned long\<close> have 64. Handles are addresses, with
  \<open>0\<close> the null pointer.
\<close>

type_synonym uint32_t = "32 word"
type_synonym FT_Error = "32 word"
type_synonym FT_Int = "32 word"
type_synonym FT_UInt = "32 word"
type_synonym FT_Int32 = "32 word"
type_synonym FT_UInt32 = "32 word"
type_synonym FT_Long = "64 word"
type_synonym FT_ULong = "64 word"
type_synonym FT_F26Dot6 = "64 word"
type_synonym FT_Render_Mode = "32 word"

type_synonym address = nat
type_synonym FT_Library = address
type_synonym FT_Face = address
type_synonym FT_Size = address
type_synonym FT_GlyphSlot = address

definition nullptr :: address where
  "nullptr = 0"

text \<open>
  The engine's procedures. An out-parameter (\<^verbatim>\<open>FT_Library*\<close>, \<^verbatim>\<open>FT_Face*\<close>) is the
  value found in it after the call, returned beside the error code;
  \<open>FT_Init_FreeType\<close> also takes the value the variable held before the call.
  \<open>FT_Error_String\<close> gives a string for every code, as the engine's interface is
  described; a null pointer in its place is not modelled. The last three fields are
  constants of the engine's header.
\<close>

record 'w engine =
  FT_Init_FreeType :: "FT_Library \<Rightarrow> 'w \<Rightarrow> FT_Error \<times> FT_Library \<times> 'w"
  FT_Done_FreeType :: "FT_Library \<Rightarrow> 'w \<Rightarrow> FT_Error \<times> 'w"
  FT_New_Face :: "FT_Library \<Rightarrow> string \<Rightarrow> FT_Long \<Rightarrow> 'w \<Rightarrow> FT_Error \<times> FT_Face \<times> 'w"
  FT_Done_Face :: "FT_Face \<Rightarrow> 'w \<Rightarrow> FT_Error \<times> 'w"
  FT_Set_Char_Size ::
    "FT_Face \<Rightarrow> FT_F26Dot6 \<Rightarrow> FT_F26Dot6 \<Rightarrow> FT_UInt \<Rightarrow> FT_UInt \<Rightarrow> 'w \<Rightarrow> FT_Error \<times> 'w"
  FT_Get_Char_Index :: "FT_Face \<Rightarrow> FT_ULong \<Rightarrow> 'w \<Rightarrow> FT_UInt \<times> 'w"
  FT_Load_Glyph :: "FT_Face \<Rightarrow> FT_UInt \<Rightarrow> FT_Int32 \<Rightarrow> 'w \<Rightarrow> FT_Error \<times> 'w"
  FT_Render_Glyph :: "FT_GlyphSlot \<Rightarrow> FT_Render_Mode \<Rightarrow> 'w \<Rightarrow> FT_Error \<times> 'w"
  FT_Error_String :: "FT_Error \<Rightarrow> string"
  FT_Err_Invalid_Character_Code :: FT_Error
  FT_LOAD_DEFAULT :: FT_Int32
  FT_RENDER_MODE_NORMAL :: FT_Render_Mode

text \<open>
  The memory the header reads through its handles: \<^verbatim>\<open>face->glyph\<close>,
  \<^verbatim>\<open>face->size->metrics\<close> and the four fields of a glyph slot. The structures
  \<^verbatim>\<open>FT_Glyph_Metrics\<close>, \<^verbatim>\<open>FT_Bitmap\<close> and \<^verbatim>\<open>FT_Size_Metrics\<close> are the engine's; the
  header only hands out references to them, so they are the type parameters
  \<open>'m\<close>, \<open>'b\<close> and \<open>'s\<close>. The store is total: a read through a dangling handle
  yields whatever is found there. The engine's private state is the extension
  of the record.
\<close>

record ('m, 'b) FT_GlyphSlotRec =
  slot_metrics :: 'm
  slot_bitmap :: 'b
  slot_bitmap_left :: FT_Int
  slot_bitmap_top :: FT_Int

record FT_FaceRec =
  face_glyph :: FT_GlyphSlot
  face_size :: FT_Size

record 's FT_SizeRec =
  size_metrics :: 's

record ('m, 'b, 's) memory =
  faces :: "FT_Face \<Rightarrow> FT_FaceRec"
  sizes :: "FT_Size \<Rightarrow> 's FT_SizeRec"
  slots :: "FT_GlyphSlot \<Rightarrow> ('m, 'b) FT_GlyphSlotRec"

section \<open>The adapter\<close>

type_synonym CharCode = FT_ULong

definition default_dpi :: int where
  "default_dpi = 96"

text \<open>
  An argument with a default value is an \<open>option\<close>: \<open>None\<close> is the call that
  leaves it out.
\<close>

definition default_arg :: "'a \<Rightarrow> 'a option \<Rightarrow> 'a" where
  "default_arg d a = (case a of None \<Rightarrow> d | Some v \<Rightarrow> v)"

subsection \<open>Exceptions\<close>

text \<open>
  The two exception classes, each with the message of its
  \<^verbatim>\<open>std::runtime_error\<close> base; \<open>InvalidCharCodeException\<close> adds \<^verbatim>\<open>_code\<close>.
  \<open>Exception_ctor\<close> and \<open>InvalidCharCodeException_ctor\<close> are the two constructors
  of the source.
\<close>

datatype ft_exception =
  Exception (what: string)
| InvalidCharCodeException (what: string) (code: CharCode)

definition Exception_ctor :: "'w engine \<Rightarrow> FT_Error \<Rightarrow> ft_exception" where
  "Exception_ctor E error = Exception (FT_Error_String E error)"

definition InvalidCharCodeException_ctor :: "'w engine \<Rightarrow> CharCode \<Rightarrow> ft_exception" where
  "InvalidCharCodeException_ctor E c =
     InvalidCharCodeException
       (what (Exception_ctor E (FT_Err_Invalid_Character_Code E))) c"

text \<open>
  A member function that may throw returns the exception (\<open>Inl\<close>) or its result
  (\<open>Inr\<close>), beside the engine's state after the call.
\<close>

type_synonym ('a, 'w) call = "'w \<Rightarrow> (ft_exception + 'a) \<times> 'w"

subsection \<open>Glyph\<close>

datatype Glyph = Glyph (Glyph_glyph: FT_GlyphSlot)

definition metrics :: "Glyph \<Rightarrow> ('m, 'b, 's, 'x) memory_scheme \<Rightarrow> 'm" where
  "metrics g w = slot_metrics (slots w (Glyph_glyph g))"

definition bitmap :: "Glyph \<Rightarrow> ('m, 'b, 's, 'x) memory_scheme \<Rightarrow> 'b" where
  "bitmap g w = slot_bitmap (slots w (Glyph_glyph g))"

definition bitmap_left :: "Glyph \<Rightarrow> ('m, 'b, 's, 'x) memory_scheme \<Rightarrow> FT_Int" where
  "bitmap_left g w = slot_bitmap_left (slots w (Glyph_glyph g))"

definition bitmap_top :: "Glyph \<Rightarrow> ('m, 'b, 's, 'x) memory_scheme \<Rightarrow> FT_Int" where
  "bitmap_top g w = slot_bitmap_top (slots w (Glyph_glyph g))"

definition render :: "'w engine \<Rightarrow> Glyph \<Rightarrow> FT_Render_Mode option \<Rightarrow> (unit, 'w) call" where
  "render E g renderMode w =
     (case FT_Render_Glyph E (Glyph_glyph g)
             (default_arg (FT_RENDER_MODE_NORMAL E) renderMode) w of
        (error, w') \<Rightarrow>
          if error \<noteq> 0 then (Inl (Exception_ctor E error), w') else (Inr (), w'))"

subsection \<open>Face\<close>

datatype Face = Face (Face_face: FT_Face)

text \<open>
  The destructor: the branch for a nonzero code is empty, its \<^verbatim>\<open>throw\<close> is
  commented out.
\<close>

definition Face_dtor :: "'w engine \<Rightarrow> Face \<Rightarrow> (unit, 'w) call" where
  "Face_dtor E f w =
     (case FT_Done_Face E (Face_face f) w of
        (error, w') \<Rightarrow> if error \<noteq> 0 then (Inr (), w') else (Inr (), w'))"

definition set_char_size ::
  "'w engine \<Rightarrow> Face \<Rightarrow> uint32_t \<Rightarrow> uint32_t \<Rightarrow> uint32_t \<Rightarrow> uint32_t \<Rightarrow> (unit, 'w) call" where
  "set_char_size E f width height horz_res vert_res w =
     (case FT_Set_Char_Size E (Face_face f) (ucast width) (ucast height) horz_res vert_res w of
        (error, w') \<Rightarrow>
          if error \<noteq> 0 then (Inl (Exception_ctor E error), w') else (Inr (), w'))"

text \<open>The overload \<^verbatim>\<open>set_char_size(uint32_t pt, uint32_t dpi = default_dpi)\<close>.\<close>

definition set_char_size_pt ::
  "'w engine \<Rightarrow> Face \<Rightarrow> uint32_t \<Rightarrow> uint32_t option \<Rightarrow> (unit, 'w) call" where
  "set_char_size_pt E f pt dpi w =
     set_char_size E f 0 (pt * 64) 0 (default_arg (word_of_int default_dpi) dpi) w"

definition get_char_index :: "'w engine \<Rightarrow> Face \<Rightarrow> CharCode \<Rightarrow> (FT_UInt, 'w) call" where
  "get_char_index E f c w =
     (case FT_Get_Char_Index E (Face_face f) c w of
        (index, w') \<Rightarrow>
          if index = 0 then (Inl (InvalidCharCodeException_ctor E c), w')
          else (Inr index, w'))"

definition load_glyph ::
  "('m, 'b, 's, 'x) memory_scheme engine \<Rightarrow> Face \<Rightarrow> FT_UInt32 \<Rightarrow> FT_UInt32 option \<Rightarrow>
     (Glyph, ('m, 'b, 's, 'x) memory_scheme) call" where
  "load_glyph E f index flags w =
     (case FT_Load_Glyph E (Face_face f) index (default_arg (FT_LOAD_DEFAULT E) flags) w of
        (error, w') \<Rightarrow>
          if error \<noteq> 0 then (Inl (Exception_ctor E error), w')
          else (Inr (Glyph (face_glyph (faces w' (Face_face f)))), w'))"

definition Face_metrics :: "Face \<Rightarrow> ('m, 'b, 's, 'x) memory_scheme \<Rightarrow> 's" where
  "Face_metrics f w = size_metrics (sizes w (face_size (faces w (Face_face f))))"

subsection \<open>Library\<close>

datatype Library = Library (Library_library: FT_Library)

definition create_library :: "'w engine \<Rightarrow> (FT_Library, 'w) call" where
  "create_library E w =
     (case FT_Init_FreeType E nullptr w of
        (error, lib, w') \<Rightarrow>
          if error \<noteq> 0 then (Inl (Exception_ctor E error), w') else (Inr lib, w'))"

definition Library_ctor :: "'w engine \<Rightarrow> (Library, 'w) call" where
  "Library_ctor E w =
     (case create_library E w of
        (Inl e, w') \<Rightarrow> (Inl e, w')
      | (Inr lib, w') \<Rightarrow> (Inr (Library lib), w'))"

definition Library_dtor :: "'w engine \<Rightarrow> Library \<Rightarrow> (unit, 'w) call" where
  "Library_dtor E L w =
     (case FT_Done_FreeType E (Library_library L) w of
        (error, w') \<Rightarrow> if error \<noteq> 0 then (Inr (), w') else (Inr (), w'))"

text \<open>
  The three overloads of \<^verbatim>\<open>new_face\<close>. A \<^verbatim>\<open>const char*\<close> is the characters
  before the terminating zero; \<open>c_str\<close> is what \<^verbatim>\<open>std::string::c_str\<close> shows of a
  string to a reader of C strings. A \<^verbatim>\<open>std::filesystem::path\<close> holds its
  pathname in the native format, which \<^verbatim>\<open>string()\<close> returns.
\<close>

definition c_str :: "string \<Rightarrow> string" where
  "c_str s = takeWhile (\<lambda>c. c \<noteq> CHR 0x00) s"

datatype path = Path (path_string: string)

definition new_face :: "'w engine \<Rightarrow> Library \<Rightarrow> string \<Rightarrow> FT_Long option \<Rightarrow> (Face, 'w) call" where
  "new_face E L p index w =
     (case FT_New_Face E (Library_library L) p (default_arg 0 index) w of
        (error, face, w') \<Rightarrow>
          if error \<noteq> 0 then (Inl (Exception_ctor E error), w') else (Inr (Face face), w'))"

definition new_face_string ::
  "'w engine \<Rightarrow> Library \<Rightarrow> string \<Rightarrow> FT_Long option \<Rightarrow> (Face, 'w) call" where
  "new_face_string E L p index w = new_face E L (c_str p) (Some (default_arg 0 index)) w"

definition new_face_path ::
  "'w engine \<Rightarrow> Library \<Rightarrow> path \<Rightarrow> FT_Long option \<Rightarrow> (Face, 'w) call" where
  "new_face_path E L p index w =
     new_face_string E L (path_string p) (Some (default_arg 0 index)) w"

subsection \<open>Client code that yields a Face\<close>

text \<open>
  The expressions of type \<^verbatim>\<open>Face\<close> that client code can write with the members
  declared for \<^verbatim>\<open>Face\<close> and \<^verbatim>\<open>Library\<close>: the public constructor
  \<^verbatim>\<open>Face(FT_Face)\<close>, the defaulted move constructor, the copy constructor and the
  three overloads of \<^verbatim>\<open>new_face\<close>. The copy constructor is declared deleted, so an
  expression that copies is ill-formed and has no value (\<open>None\<close>). The defaulted move
  constructor moves member by member: the new \<^verbatim>\<open>Face\<close> holds the handle of the old.
\<close>

datatype Face_expr =
    Construct FT_Face
  | Move Face_expr
  | Copy Face_expr
  | New_face Library string "FT_Long option"
  | New_face_string Library string "FT_Long option"
  | New_face_path Library path "FT_Long option"

fun well_formed :: "Face_expr \<Rightarrow> bool" where
  "well_formed (Construct h) = True"
| "well_formed (Move e) = well_formed e"
| "well_formed (Copy e) = False"
| "well_formed (New_face L p index) = True"
| "well_formed (New_face_string L p index) = True"
| "well_formed (New_face_path L p index) = True"

text \<open>The raw handle client code passes to the constructor, if that is where the
  \<^verbatim>\<open>Face\<close> of an expression starts.\<close>

fun raw_handle :: "Face_expr \<Rightarrow> FT_Face option" where
  "raw_handle (Construct h) = Some h"
| "raw_handle (Move e) = raw_handle e"
| "raw_handle (Copy e) = raw_handle e"
| "raw_handle (New_face L p index) = None"
| "raw_handle (New_face_string L p index) = None"
| "raw_handle (New_face_path L p index) = None"

definition through_new_face :: "Face_expr \<Rightarrow> bool" where
  "through_new_face e = (raw_handle e = None)"

fun eval :: "'w engine \<Rightarrow> Face_expr \<Rightarrow> 'w \<Rightarrow> ((ft_exception + Face) \<times> 'w) option" where
  "eval E (Construct h) w = Some (Inr (Face h), w)"
| "eval E (Move e) w =
     (case eval E e w of
        None \<Rightarrow> None
      | Some (Inl x, w') \<Rightarrow> Some (Inl x, w')
      | Some (Inr f, w') \<Rightarrow> Some (Inr (Face (Face_face f)), w'))"
| "eval E (Copy e) w = None"
| "eval E (New_face L p index) w = Some (new_face E L p index w)"
| "eval E (New_face_string L p index) w = Some (new_face_string E L p index w)"
| "eval E (New_face_path L p index) w = Some (new_face_path E L p index w)"

section \<open>An engine for examples\<close>

text \<open>
  A small stand-in for the engine, on which the adapter is evaluated at concrete
  inputs. It knows one font file with one face, whose handle is \<open>1\<close>, whose glyph
  slot is at address \<open>2\<close> and whose size object is at address \<open>3\<close>; the character
  \<^verbatim>\<open>A\<close> has glyph index 36; glyph indices below 100 load, and a load of glyph
  \<open>n\<close> fills the slot with metrics \<open>n\<close>, bitmap \<open>2 * n\<close>, left offset \<open>n + 1\<close>
  and top offset \<open>n + 2\<close>. The private state says whether memory is left. The
  error codes are the engine's (\<^verbatim>\<open>0x11\<close> is \<^verbatim>\<open>FT_Err_Invalid_Character_Code\<close>).
\<close>

type_synonym demo_memory = "(nat, nat, nat, bool) memory_scheme"

definition demo_engine :: "demo_memory engine" where
  "demo_engine = \<lparr>
     FT_Init_FreeType = (\<lambda>lib w. if memory.more w then (0, 1, w) else (0x40, lib, w)),
     FT_Done_FreeType = (\<lambda>lib w. if lib = 1 then (0, w) else (0x21, w)),
     FT_New_Face = (\<lambda>lib p index w.
       if lib = 1 \<and> p = ''DejaVuSans.ttf'' \<and> index = 0
       then (0, 1, w\<lparr>faces := (faces w)(1 := \<lparr>face_glyph = 2, face_size = 3\<rparr>)\<rparr>)
       else (0x01, nullptr, w)),
     FT_Done_Face = (\<lambda>face w. if face = 1 then (0, w) else (0x23, w)),
     FT_Set_Char_Size = (\<lambda>face width height horz_res vert_res w.
       if face = 1 \<and> height \<noteq> 0
       then (0, w\<lparr>sizes := (sizes w)(face_size (faces w face) :=
                     \<lparr>size_metrics = unat height * unat vert_res\<rparr>)\<rparr>)
       else (0x06, w)),
     FT_Get_Char_Index = (\<lambda>face c w. (if face = 1 \<and> c = 0x41 then 36 else 0, w)),
     FT_Load_Glyph = (\<lambda>face index flags w.
       if face = 1 \<and> index < 100
       then (0, w\<lparr>slots := (slots w)(face_glyph (faces w face) :=
                     \<lparr>slot_metrics = unat index, slot_bitmap = 2 * unat index,
                      slot_bitmap_left = index + 1, slot_bitmap_top = index + 2\<rparr>)\<rparr>)
       else (0x10, w)),
     FT_Render_Glyph = (\<lambda>slot mode w.
       if slot = 2
       then (0, w\<lparr>slots := (slots w)(slot :=
                     (slots w slot)\<lparr>slot_bitmap := slot_metrics (slots w slot) + 1\<rparr>)\<rparr>)
       else (0x25, w)),
     FT_Error_String = (\<lambda>error.
       if error = 0x11 then ''invalid character code''
       else if error = 0x40 then ''out of memory''
       else if error = 0x06 then ''invalid argument''
       else ''unknown error''),
     FT_Err_Invalid_Character_Code = 0x11,
     FT_LOAD_DEFAULT = 0,
     FT_RENDER_MODE_NORMAL = 0\<rparr>"

definition demo_start :: demo_memory where
  "demo_start = \<lparr>
     faces = (\<lambda>_. \<lparr>face_glyph = nullptr, face_size = nullptr\<rparr>),
     sizes = (\<lambda>_. \<lparr>size_metrics = 0\<rparr>),
     slots = (\<lambda>_. \<lparr>slot_metrics = 0, slot_bitmap = 0,
                    slot_bitmap_left = 0, slot_bitmap_top = 0\<rparr>),
     \<dots> = True\<rparr>"

text \<open>The state once the font is open, and once glyph \<open>n\<close> is loaded.\<close>

definition demo_open :: demo_memory where
  "demo_open =
     demo_start\<lparr>faces := (faces demo_start)(1 := \<lparr>face_glyph = 2, face_size = 3\<rparr>)\<rparr>"

definition demo_loaded :: "FT_UInt \<Rightarrow> demo_memory" where
  "demo_loaded n = demo_open\<lparr>slots := (slots demo_open)(2 :=
     \<lparr>slot_metrics = unat n, slot_bitmap = 2 * unat n,
      slot_bitmap_left = n + 1, slot_bitmap_top = n + 2\<rparr>)\<rparr>"

section \<open>The example engine at work\<close>

lemma demo_new_face:
  "new_face demo_engine (Library 1) ''DejaVuSans.ttf'' None demo_start = (Inr (Face 1), demo_open)"
  by (simp add: new_face_def demo_engine_def demo_open_def default_arg_def)

lemma demo_load_glyph:
  "load_glyph demo_engine (Face 1) 36 None demo_open = (Inr (Glyph 2), demo_loaded 36)"
  "load_glyph demo_engine (Face 1) 37 None (demo_loaded 36) = (Inr (Glyph 2), demo_loaded 37)"
  by (simp_all add: load_glyph_def demo_engine_def demo_loaded_def demo_open_def demo_start_def
      default_arg_def)

section \<open>Character lookup\<close>

text \<open>
  C1. For every character code, \<open>get_char_index\<close> raises
  \<open>InvalidCharCodeException\<close> carrying exactly that code (and the engine's message
  for \<open>FT_Err_Invalid_Character_Code\<close>) when the engine's lookup yields index zero,
  and otherwise returns the nonzero glyph index the lookup gave.
\<close>

theorem get_char_index_result:
  assumes "FT_Get_Char_Index E (Face_face f) c w = (index, w')"
  shows "(index = 0 \<longrightarrow>
            get_char_index E f c w =
              (Inl (InvalidCharCodeException
                      (FT_Error_String E (FT_Err_Invalid_Character_Code E)) c), w')) \<and>
         (index \<noteq> 0 \<longrightarrow> get_char_index E f c w = (Inr index, w')) \<and>
         code (InvalidCharCodeException_ctor E c) = c"
  using assms
  by (simp add: get_char_index_def InvalidCharCodeException_ctor_def Exception_ctor_def)

text \<open>On the example engine: \<^verbatim>\<open>A\<close> is found, U+263A is not.\<close>

theorem get_char_index_result_witness:
  "get_char_index demo_engine (Face 1) 0x41 demo_open = (Inr 36, demo_open) \<and>
   get_char_index demo_engine (Face 1) 0x263A demo_open =
     (Inl (InvalidCharCodeException ''invalid character code'' 0x263A), demo_open)"
proof -
  have found: "FT_Get_Char_Index demo_engine (Face_face (Face 1)) 0x41 demo_open = (36, demo_open)"
    by (simp add: demo_engine_def)
  have absent: "FT_Get_Char_Index demo_engine (Face_face (Face 1)) 0x263A demo_open = (0, demo_open)"
    by (simp add: demo_engine_def)
  show ?thesis
    using get_char_index_result [OF found] get_char_index_result [OF absent]
    by (simp add: demo_engine_def)
qed

section \<open>Character size\<close>

text \<open>
  C2. For every point size and resolution, the overload \<open>set_char_size_pt\<close> is the
  four-argument \<open>set_char_size\<close> at width 0, height \<open>pt * 64\<close>, horizontal
  resolution 0 and vertical resolution \<open>dpi\<close>, and \<open>dpi\<close> is 96 when it is left
  out: the same engine call with the same arguments, the same result, the same
  state afterwards and so the same size metrics.
\<close>

theorem set_char_size_pt_delegates:
  "set_char_size_pt E f pt (Some dpi) w = set_char_size E f 0 (pt * 64) 0 dpi w \<and>
   set_char_size_pt E f pt None w = set_char_size E f 0 (pt * 64) 0 96 w \<and>
   set_char_size_pt E f pt dpi_arg w =
     (case FT_Set_Char_Size E (Face_face f) 0 (ucast (pt * 64)) 0 (default_arg 96 dpi_arg) w of
        (error, w') \<Rightarrow>
          if error \<noteq> 0 then (Inl (Exception (FT_Error_String E error)), w')
          else (Inr (), w')) \<and>
   Face_metrics f (snd (set_char_size_pt M f pt (Some dpi) m)) =
     Face_metrics f (snd (set_char_size M f 0 (pt * 64) 0 dpi m))"
  by (simp add: set_char_size_pt_def set_char_size_def default_arg_def default_dpi_def
      Exception_ctor_def split: prod.split)

lemma sint_ucast_u32: "sint (ucast (x :: 32 word) :: 64 word) = uint x"
proof -
  have "uint x < 2 ^ 32"
    using uint_bounded [of x] by simp
  then have "uint x < 2 ^ 63"
    by simp
  moreover have "- (2 ^ 63) \<le> uint x"
    by (rule order_trans [OF _ uint_nonnegative]) simp
  ultimately have "signed_take_bit 63 (uint x) = uint x"
    by (simp add: signed_take_bit_int_eq_self)
  then show ?thesis
    by (simp add: signed_ucast_eq)
qed

lemma height_received:
  "sint (ucast (pt * 64 :: uint32_t) :: FT_F26Dot6) = (uint pt * 64) mod 2 ^ 32"
  by (simp add: sint_ucast_u32 uint_word_ariths)

lemma no_wrap_iff:
  "((uint (pt :: uint32_t) * 64) mod 2 ^ 32 = uint pt * 64) = (uint pt < 2 ^ 26)"
  by auto

text \<open>
  C10. In \<open>set_char_size_pt\<close> the height passed to the engine is \<open>pt * 64\<close> in
  32-bit unsigned arithmetic, so it wraps modulo \<open>2 ^ 32\<close>: the engine receives
  \<open>(pt * 64) mod 2 ^ 32\<close> (as a signed 64-bit \<^verbatim>\<open>FT_F26Dot6\<close>), and this is the
  mathematical product exactly when \<open>pt < 2 ^ 26\<close>.
\<close>

theorem set_char_size_pt_height_wraps:
  "set_char_size_pt E f pt dpi w =
     (case FT_Set_Char_Size E (Face_face f) 0 (ucast (pt * 64)) 0 (default_arg 96 dpi) w of
        (error, w') \<Rightarrow>
          if error \<noteq> 0 then (Inl (Exception (FT_Error_String E error)), w')
          else (Inr (), w')) \<and>
   sint (ucast (pt * 64) :: FT_F26Dot6) = (uint pt * 64) mod 2 ^ 32 \<and>
   (sint (ucast (pt * 64) :: FT_F26Dot6) = uint pt * 64) = (uint pt < 2 ^ 26)"
proof -
  have call: "set_char_size_pt E f pt dpi w =
     (case FT_Set_Char_Size E (Face_face f) 0 (ucast (pt * 64)) 0 (default_arg 96 dpi) w of
        (error, w') \<Rightarrow>
          if error \<noteq> 0 then (Inl (Exception (FT_Error_String E error)), w')
          else (Inr (), w'))"
    by (simp add: set_char_size_pt_def set_char_size_def default_arg_def default_dpi_def
        Exception_ctor_def split: prod.split)
  have exactly: "(sint (ucast (pt * 64) :: FT_F26Dot6) = uint pt * 64) = (uint pt < 2 ^ 26)"
    unfolding height_received by (rule no_wrap_iff)
  show ?thesis
    using call height_received exactly by blast
qed

text \<open>
  On the example engine: at \<open>pt = 2 ^ 26\<close> the height wraps to zero, which the
  engine rejects; at \<open>pt = 12\<close> it is 768.
\<close>

theorem set_char_size_pt_height_wraps_witness:
  "sint (ucast ((67108864 :: uint32_t) * 64) :: FT_F26Dot6) = 0 \<and>
   set_char_size_pt demo_engine (Face 1) 67108864 None demo_open =
     (Inl (Exception ''invalid argument''), demo_open) \<and>
   sint (ucast ((12 :: uint32_t) * 64) :: FT_F26Dot6) = 768"
  using set_char_size_pt_height_wraps [of demo_engine "Face 1" 67108864 None demo_open]
    set_char_size_pt_height_wraps [of demo_engine "Face 1" 12 None demo_open]
  by (simp add: demo_engine_def)

section \<open>The shared glyph slot\<close>

text \<open>
  C3. Every \<open>Glyph\<close> that \<open>load_glyph\<close> returns is a view over the glyph slot of
  its face, \<^verbatim>\<open>face->glyph\<close>. So when the engine keeps that one slot for the face, the
  view returned by a first call and the view returned by a later call on the same
  face are the same view: after the later call each accessor of the first view
  (\<open>metrics\<close>, \<open>bitmap\<close>, \<open>bitmap_left\<close>, \<open>bitmap_top\<close>) reads the
  corresponding field of the face's slot as the engine's second load left it, the
  data of the second glyph.
\<close>

theorem load_glyph_shared_slot:
  assumes first: "load_glyph E f index1 flags1 w0 = (Inr g1, w1)"
    and second: "load_glyph E f index2 flags2 w1' = (Inr g2, w2)"
    and single_slot: "face_glyph (faces w2 (Face_face f)) = face_glyph (faces w1 (Face_face f))"
  shows "Glyph_glyph g1 = face_glyph (faces w1 (Face_face f)) \<and>
         Glyph_glyph g2 = face_glyph (faces w2 (Face_face f)) \<and>
         g1 = g2 \<and>
         w2 = snd (FT_Load_Glyph E (Face_face f) index2
                     (default_arg (FT_LOAD_DEFAULT E) flags2) w1') \<and>
         metrics g1 w2 = slot_metrics (slots w2 (face_glyph (faces w2 (Face_face f)))) \<and>
         bitmap g1 w2 = slot_bitmap (slots w2 (face_glyph (faces w2 (Face_face f)))) \<and>
         bitmap_left g1 w2 =
           slot_bitmap_left (slots w2 (face_glyph (faces w2 (Face_face f)))) \<and>
         bitmap_top g1 w2 =
           slot_bitmap_top (slots w2 (face_glyph (faces w2 (Face_face f)))) \<and>
         metrics g1 w2 = metrics g2 w2 \<and>
         bitmap g1 w2 = bitmap g2 w2 \<and>
         bitmap_left g1 w2 = bitmap_left g2 w2 \<and>
         bitmap_top g1 w2 = bitmap_top g2 w2"
proof -
  from first have g1: "g1 = Glyph (face_glyph (faces w1 (Face_face f)))"
    by (auto simp: load_glyph_def split: prod.splits if_splits)
  from second have g2: "g2 = Glyph (face_glyph (faces w2 (Face_face f)))"
    and w2: "w2 = snd (FT_Load_Glyph E (Face_face f) index2
                         (default_arg (FT_LOAD_DEFAULT E) flags2) w1')"
    by (auto simp: load_glyph_def split: prod.splits if_splits)
  from g1 g2 single_slot have same: "g1 = g2"
    by simp
  show ?thesis
    using g1 g2 same w2
    by (simp add: metrics_def bitmap_def bitmap_left_def bitmap_top_def)
qed

text \<open>
  On the example engine: glyph 36 is loaded, then glyph 37. The view of the first
  call showed the data of glyph 36 before the second call and shows the data of
  glyph 37 after it, through each accessor.
\<close>

theorem load_glyph_shared_slot_witness:
  "load_glyph demo_engine (Face 1) 36 None demo_open = (Inr (Glyph 2), demo_loaded 36) \<and>
   load_glyph demo_engine (Face 1) 37 None (demo_loaded 36) = (Inr (Glyph 2), demo_loaded 37) \<and>
   metrics (Glyph 2) (demo_loaded 36) = 36 \<and>
   bitmap (Glyph 2) (demo_loaded 36) = 72 \<and>
   bitmap_left (Glyph 2) (demo_loaded 36) = 37 \<and>
   bitmap_top (Glyph 2) (demo_loaded 36) = 38 \<and>
   metrics (Glyph 2) (demo_loaded 37) = 37 \<and>
   bitmap (Glyph 2) (demo_loaded 37) = 74 \<and>
   bitmap_left (Glyph 2) (demo_loaded 37) = 38 \<and>
   bitmap_top (Glyph 2) (demo_loaded 37) = 39"
proof -
  have single: "face_glyph (faces (demo_loaded 37) (Face_face (Face 1))) =
                face_glyph (faces (demo_loaded 36) (Face_face (Face 1)))"
    by (simp add: demo_loaded_def)
  note shared = load_glyph_shared_slot [OF demo_load_glyph(1) demo_load_glyph(2) single]
  have slot: "face_glyph (faces (demo_loaded 37) (Face_face (Face 1))) = 2"
    by (simp add: demo_loaded_def demo_open_def)
  have "metrics (Glyph 2) (demo_loaded 37) =
        slot_metrics (slots (demo_loaded 37)
          (face_glyph (faces (demo_loaded 37) (Face_face (Face 1)))))"
    using shared by blast
  also have "\<dots> = 37"
    unfolding slot by (simp add: demo_loaded_def)
  finally have after_metrics: "metrics (Glyph 2) (demo_loaded 37) = 37" .
  have "bitmap (Glyph 2) (demo_loaded 37) =
        slot_bitmap (slots (demo_loaded 37)
          (face_glyph (faces (demo_loaded 37) (Face_face (Face 1)))))"
    using shared by blast
  also have "\<dots> = 74"
    unfolding slot by (simp add: demo_loaded_def)
  finally have after_bitmap: "bitmap (Glyph 2) (demo_loaded 37) = 74" .
  have "bitmap_left (Glyph 2) (demo_loaded 37) =
        slot_bitmap_left (slots (demo_loaded 37)
          (face_glyph (faces (demo_loaded 37) (Face_face (Face 1)))))"
    using shared by blast
  also have "\<dots> = 38"
    unfolding slot by (simp add: demo_loaded_def)
  finally have after_left: "bitmap_left (Glyph 2) (demo_loaded 37) = 38" .
  have "bitmap_top (Glyph 2) (demo_loaded 37) =
        slot_bitmap_top (slots (demo_loaded 37)
          (face_glyph (faces (demo_loaded 37) (Face_face (Face 1)))))"
    using shared by blast
  also have "\<dots> = 39"
    unfolding slot by (simp add: demo_loaded_def)
  finally have after_top: "bitmap_top (Glyph 2) (demo_loaded 37) = 39" .
  have before: "metrics (Glyph 2) (demo_loaded 36) = 36"
    "bitmap (Glyph 2) (demo_loaded 36) = 72"
    "bitmap_left (Glyph 2) (demo_loaded 36) = 37"
    "bitmap_top (Glyph 2) (demo_loaded 36) = 38"
    by (simp_all add: metrics_def bitmap_def bitmap_left_def bitmap_top_def demo_loaded_def)
  show ?thesis
    using before after_metrics after_bitmap after_left after_top demo_load_glyph by simp
qed

section \<open>Errors\<close>

text \<open>
  C4. The destructors of \<open>Face\<close> and \<open>Library\<close> make the engine's release call
  (\<open>FT_Done_Face\<close>, \<open>FT_Done_FreeType\<close>) and return normally whatever code it
  reports: a nonzero code is discarded, nothing is raised.
\<close>

theorem destructors_swallow:
  "Face_dtor E f w = (Inr (), snd (FT_Done_Face E (Face_face f) w)) \<and>
   Library_dtor E L w = (Inr (), snd (FT_Done_FreeType E (Library_library L) w))"
  by (simp add: Face_dtor_def Library_dtor_def split: prod.split)

text \<open>On the example engine: releasing an unknown handle reports a nonzero code.\<close>

theorem destructors_swallow_witness:
  "fst (FT_Done_Face demo_engine 7 demo_open) = 0x23 \<and>
   Face_dtor demo_engine (Face 7) demo_open = (Inr (), demo_open) \<and>
   fst (FT_Done_FreeType demo_engine 7 demo_open) = 0x21 \<and>
   Library_dtor demo_engine (Library 7) demo_open = (Inr (), demo_open)"
  using destructors_swallow [of demo_engine "Face 7" demo_open "Library 7"]
  by (simp add: demo_engine_def)

text \<open>
  C5. Each fallible operation other than teardown (constructing a \<open>Library\<close>,
  \<open>new_face\<close> in its three overloads, \<open>set_char_size\<close> in its two, \<open>load_glyph\<close>
  and \<open>render\<close>) makes one engine call and checks its code at once: a nonzero code
  raises the \<open>Exception\<close> for that code, a zero code returns the result (or
  returns normally). The state afterwards is the engine's; an error never comes
  back as a result.
\<close>

theorem fallible_operations_checked:
  "Library_ctor E w =
     (case FT_Init_FreeType E nullptr w of
        (error, lib, w') \<Rightarrow>
          if error \<noteq> 0 then (Inl (Exception (FT_Error_String E error)), w')
          else (Inr (Library lib), w')) \<and>
   new_face E L raw index w =
     (case FT_New_Face E (Library_library L) raw (default_arg 0 index) w of
        (error, face, w') \<Rightarrow>
          if error \<noteq> 0 then (Inl (Exception (FT_Error_String E error)), w')
          else (Inr (Face face), w')) \<and>
   new_face_string E L s index w =
     (case FT_New_Face E (Library_library L) (c_str s) (default_arg 0 index) w of
        (error, face, w') \<Rightarrow>
          if error \<noteq> 0 then (Inl (Exception (FT_Error_String E error)), w')
          else (Inr (Face face), w')) \<and>
   new_face_path E L p index w =
     (case FT_New_Face E (Library_library L) (c_str (path_string p)) (default_arg 0 index) w of
        (error, face, w') \<Rightarrow>
          if error \<noteq> 0 then (Inl (Exception (FT_Error_String E error)), w')
          else (Inr (Face face), w')) \<and>
   set_char_size E f width height horz_res vert_res w =
     (case FT_Set_Char_Size E (Face_face f) (ucast width) (ucast height) horz_res vert_res w of
        (error, w') \<Rightarrow>
          if error \<noteq> 0 then (Inl (Exception (FT_Error_String E error)), w')
          else (Inr (), w')) \<and>
   set_char_size_pt E f pt dpi w =
     (case FT_Set_Char_Size E (Face_face f) 0 (ucast (pt * 64)) 0 (default_arg 96 dpi) w of
        (error, w') \<Rightarrow>
          if error \<noteq> 0 then (Inl (Exception (FT_Error_String E error)), w')
          else (Inr (), w')) \<and>
   load_glyph M f gindex flags m =
     (case FT_Load_Glyph M (Face_face f) gindex (default_arg (FT_LOAD_DEFAULT M) flags) m of
        (error, m') \<Rightarrow>
          if error \<noteq> 0 then (Inl (Exception (FT_Error_String M error)), m')
          else (Inr (Glyph (face_glyph (faces m' (Face_face f)))), m')) \<and>
   render E g renderMode w =
     (case FT_Render_Glyph E (Glyph_glyph g)
             (default_arg (FT_RENDER_MODE_NORMAL E) renderMode) w of
        (error, w') \<Rightarrow>
          if error \<noteq> 0 then (Inl (Exception (FT_Error_String E error)), w')
          else (Inr (), w'))"
  by (simp add: Library_ctor_def create_library_def new_face_def new_face_string_def
      new_face_path_def set_char_size_def set_char_size_pt_def default_dpi_def
      load_glyph_def render_def Exception_ctor_def default_arg_def
      split: prod.split option.split)

text \<open>
  C6. For every error code (the nonzero ones among them), the \<open>Exception\<close>
  constructed from it is the generic exception whose message is exactly the string
  the engine's \<open>FT_Error_String\<close> gives for that code.
\<close>

theorem Exception_message:
  "Exception_ctor E error = Exception (FT_Error_String E error) \<and>
   what (Exception_ctor E error) = FT_Error_String E error"
  by (simp add: Exception_ctor_def)

section \<open>Library\<close>

text \<open>
  C7. Constructing a \<open>Library\<close> initialises the engine, on a handle that starts
  null. When the engine reports a nonzero code the constructor raises the
  \<open>Exception\<close> for it; when it reports zero the \<open>Library\<close> holds the handle the
  engine gave. So with an engine that gives a non-null handle whenever it reports
  zero, every \<open>Library\<close> that is constructed holds a non-null handle.
\<close>

theorem Library_construction:
  assumes init: "FT_Init_FreeType E nullptr w = (error, lib, w')"
    and contract: "error = 0 \<longrightarrow> lib \<noteq> nullptr"
  shows "(error \<noteq> 0 \<longrightarrow>
            Library_ctor E w = (Inl (Exception (FT_Error_String E error)), w')) \<and>
         (error = 0 \<longrightarrow> Library_ctor E w = (Inr (Library lib), w')) \<and>
         (\<forall>L w''. Library_ctor E w = (Inr L, w'') \<longrightarrow> Library_library L \<noteq> nullptr)"
  using assms
  by (auto simp: Library_ctor_def create_library_def Exception_ctor_def)

text \<open>On the example engine: with memory left, and with none.\<close>

theorem Library_construction_witness:
  "Library_ctor demo_engine demo_start = (Inr (Library 1), demo_start) \<and>
   Library_library (Library 1) \<noteq> nullptr \<and>
   Library_ctor demo_engine (demo_start\<lparr>memory.more := False\<rparr>) =
     (Inl (Exception ''out of memory''), demo_start\<lparr>memory.more := False\<rparr>)"
proof -
  have ok: "FT_Init_FreeType demo_engine nullptr demo_start = (0, 1, demo_start)"
    by (simp add: demo_engine_def demo_start_def)
  have ok_contract: "(0 :: FT_Error) = 0 \<longrightarrow> (1 :: FT_Library) \<noteq> nullptr"
    by (simp add: nullptr_def)
  have failed: "FT_Init_FreeType demo_engine nullptr (demo_start\<lparr>memory.more := False\<rparr>) =
                  (0x40, nullptr, demo_start\<lparr>memory.more := False\<rparr>)"
    by (simp add: demo_engine_def)
  have failed_contract: "(0x40 :: FT_Error) = 0 \<longrightarrow> nullptr \<noteq> nullptr"
    by simp
  show ?thesis
    using Library_construction [OF ok ok_contract] Library_construction [OF failed failed_contract]
    by (simp add: demo_engine_def nullptr_def)
qed

section \<open>Obtaining a Face\<close>

lemma new_face_Inr:
  assumes "new_face E L p index w = (Inr f, w')"
  shows "FT_New_Face E (Library_library L) p (default_arg 0 index) w = (0, Face_face f, w')"
  using assms by (auto simp: new_face_def split: prod.splits if_splits)

lemma eval_Move: "eval E (Move e) w = eval E e w"
  by (simp split: option.split prod.split sum.split)

text \<open>
  C8, as the code has it. A \<open>Face\<close> is obtained through \<open>new_face\<close> or through the
  public constructor \<open>Face\<close>, which client code can call with any raw handle,
  without an engine call: whenever an expression yields a \<open>Face\<close>, the expression
  is well-formed, and the \<open>Face\<close> wraps either the raw handle the client passed
  to the constructor (the state is unchanged) or the handle the engine returned
  with code zero from \<open>FT_New_Face\<close>. A \<open>Face\<close> is not copyable (a copy is
  ill-formed and yields nothing) but is movable (the move yields the same
  \<open>Face\<close>).
\<close>

theorem Face_sources:
  assumes "eval E e w = Some (Inr f, w')"
  shows "well_formed e \<and>
         (case raw_handle e of
            Some h \<Rightarrow> f = Face h \<and> w' = w
          | None \<Rightarrow> (\<exists>lib p index. FT_New_Face E lib p index w = (0, Face_face f, w'))) \<and>
         eval E (Construct h0) w = Some (Inr (Face h0), w) \<and>
         well_formed (Construct h0) \<and>
         eval E (Copy e) w = None \<and> \<not> well_formed (Copy e) \<and>
         eval E (Move e) w = Some (Inr f, w') \<and> well_formed (Move e)"
proof -
  have main: "well_formed e \<and>
         (case raw_handle e of
            Some h \<Rightarrow> f = Face h \<and> w' = w
          | None \<Rightarrow> (\<exists>lib p index. FT_New_Face E lib p index w = (0, Face_face f, w')))"
    using assms
  proof (induction e arbitrary: f)
    case (Construct h)
    then show ?case by auto
  next
    case (Move e)
    from Move.prems have "eval E e w = Some (Inr f, w')"
      by (simp only: eval_Move)
    from Move.IH [OF this] show ?case by simp
  next
    case (Copy e)
    then show ?case by simp
  next
    case (New_face L p index)
    then have "new_face E L p index w = (Inr f, w')" by simp
    from new_face_Inr [OF this] show ?case by auto
  next
    case (New_face_string L p index)
    then have "new_face E L (c_str p) (Some (default_arg 0 index)) w = (Inr f, w')"
      by (simp add: new_face_string_def)
    from new_face_Inr [OF this] show ?case by auto
  next
    case (New_face_path L p index)
    then have "new_face E L (c_str (path_string p))
                 (Some (default_arg 0 (Some (default_arg 0 index)))) w = (Inr f, w')"
      by (simp add: new_face_path_def new_face_string_def)
    from new_face_Inr [OF this] show ?case by auto
  qed
  show ?thesis
    using main assms by (simp add: eval_Move)
qed

text \<open>
  On the example engine: a \<open>Face\<close> opened by \<open>new_face\<close> and moved, a \<open>Face\<close>
  constructed from the raw handle 7, and a copy.
\<close>

theorem Face_sources_witness:
  "eval demo_engine (Move (New_face (Library 1) ''DejaVuSans.ttf'' None)) demo_start =
     Some (Inr (Face 1), demo_open) \<and>
   well_formed (Move (New_face (Library 1) ''DejaVuSans.ttf'' None)) \<and>
   FT_New_Face demo_engine 1 ''DejaVuSans.ttf'' 0 demo_start = (0, 1, demo_open) \<and>
   eval demo_engine (Construct 7) demo_start = Some (Inr (Face 7), demo_start) \<and>
   eval demo_engine (Copy (New_face (Library 1) ''DejaVuSans.ttf'' None)) demo_start = None"
proof -
  have opened: "eval demo_engine (New_face (Library 1) ''DejaVuSans.ttf'' None) demo_start =
                  Some (Inr (Face 1), demo_open)"
    using demo_new_face by simp
  have engine: "FT_New_Face demo_engine 1 ''DejaVuSans.ttf'' 0 demo_start = (0, 1, demo_open)"
    by (simp add: demo_engine_def demo_open_def)
  show ?thesis
    using Face_sources [OF opened, of 7] engine by simp
qed

text \<open>
  The claim that a \<open>Face\<close> comes only from \<open>new_face\<close> fails: constructing one
  from the null handle is well-formed, yields a \<open>Face\<close> on any engine, here the
  example engine, and does not go through \<open>new_face\<close>.
\<close>

theorem Face_only_through_new_face_counterexample:
  "well_formed (Construct nullptr) \<and>
   eval demo_engine (Construct nullptr) demo_start = Some (Inr (Face nullptr), demo_start) \<and>
   \<not> through_new_face (Construct nullptr)"
  by (simp add: through_new_face_def)

text \<open>
  C9. For every string \<open>s\<close> and index, \<open>new_face_string\<close> is \<open>new_face\<close> on the
  C string of \<open>s\<close>; for every filesystem path \<open>p\<close>, \<open>new_face_path\<close> is
  \<open>new_face_string\<close> on the string form of \<open>p\<close>, hence \<open>new_face\<close> on its C
  string; and in all three overloads an index left out is the index 0.
\<close>

theorem new_face_overloads:
  "new_face_string E L s index w = new_face E L (c_str s) index w \<and>
   new_face_path E L p index w = new_face_string E L (path_string p) index w \<and>
   new_face_path E L p index w = new_face E L (c_str (path_string p)) index w \<and>
   new_face E L raw None w = new_face E L raw (Some 0) w \<and>
   new_face_string E L s None w = new_face_string E L s (Some 0) w \<and>
   new_face_path E L p None w = new_face_path E L p (Some 0) w"
  by (simp add: new_face_path_def new_face_string_def new_face_def default_arg_def
      split: option.split)

text \<open>On the example engine: the font opened through a filesystem path.\<close>

theorem new_face_overloads_witness:
  "new_face_path demo_engine (Library 1) (Path ''DejaVuSans.ttf'') None demo_start =
     (Inr (Face 1), demo_open) \<and>
   new_face_string demo_engine (Library 1) ''DejaVuSans.ttf'' None demo_start =
     (Inr (Face 1), demo_open)"
  using new_face_overloads [of demo_engine "Library 1" "''DejaVuSans.ttf''" None demo_start
      "Path ''DejaVuSans.ttf''"] demo_new_face
  by (simp add: c_str_def)

end
